theory Spec2Isabelle
  imports Complex_Main
begin

section \<open>Dropify bot: a shallow embedding of bot.js, discountApi.js and the Shopify client\<close>

text \<open>
  The bot is single-threaded JavaScript. Its process state (the three module-level
  ledgers of bot.js) is a record that every function takes and returns; the outside
  world (the clock, the chat connection, the two HTTP back ends) is an oracle record
  that is only read. A rejected promise or a thrown error is the left injection of a
  sum type. Instants and durations are integers (milliseconds), as the values of
  \<^verbatim>\<open>Date.now()\<close> are. Strings are lists of code units below 256.
\<close>

subsection \<open>Strings\<close>

text \<open>The white space of \<^verbatim>\<open>String.prototype.trim\<close> and of the regular expression
  class \<^verbatim>\<open>\s\<close> among the code units below 256: tab, line feed, vertical tab, form feed,
  carriage return, space and no-break space.\<close>

definition isWhiteSpace :: "char \<Rightarrow> bool" where
  "isWhiteSpace c = (c \<in> set [CHR 0x09, CHR 0x0A, CHR 0x0B, CHR 0x0C, CHR 0x0D, CHR 0x20, CHR 0xA0])"

definition trim :: "string \<Rightarrow> string" where
  "trim s = rev (dropWhile isWhiteSpace (rev (dropWhile isWhiteSpace s)))"

text \<open>\<^verbatim>\<open>toLowerCase\<close> on code units below 256: A-Z and the Latin-1 capitals
  (0xC0-0xDE without the multiplication sign 0xD7) get bit 5 set.\<close>

definition lowerChar :: "char \<Rightarrow> char" where
  "lowerChar c = (let n = of_char c :: nat in
     if (65 \<le> n \<and> n \<le> 90) \<or> (192 \<le> n \<and> n \<le> 222 \<and> n \<noteq> 215)
     then (case c of Char b0 b1 b2 b3 b4 b5 b6 b7 \<Rightarrow> Char b0 b1 b2 b3 b4 True b6 b7)
     else c)"

definition toLowerCase :: "string \<Rightarrow> string" where
  "toLowerCase s = map lowerChar s"



definition startsWith :: "string \<Rightarrow> string \<Rightarrow> bool" where
  "startsWith s p = (take (length p) s = p)"

text \<open>\<^verbatim>\<open>s.split(/\s+/)\<close>: the pieces between the maximal runs of white space; a run at
  either end leaves an empty piece there. The first argument is the piece being read
  (reversed), the second says whether the last code unit was white space.\<close>

fun splitAcc :: "string \<Rightarrow> bool \<Rightarrow> string \<Rightarrow> string list" where
  "splitAcc cur inWs [] = [rev cur]"
| "splitAcc cur inWs (c # cs) =
     (if isWhiteSpace c
      then (if inWs then splitAcc cur True cs else rev cur # splitAcc [] True cs)
      else splitAcc (c # cur) False cs)"

definition splitWhiteSpace :: "string \<Rightarrow> string list" where
  "splitWhiteSpace s = splitAcc [] False s"

text \<open>\<^verbatim>\<open>s.replace("#", "")\<close>: the first number sign is removed.\<close>

fun removeFirstHash :: "string \<Rightarrow> string" where
  "removeFirstHash [] = []"
| "removeFirstHash (c # cs) = (if c = CHR ''#'' then cs else c # removeFirstHash cs)"

text \<open>The decimal digits of a natural number, as a template literal prints it.\<close>

definition digitChar :: "nat \<Rightarrow> char" where
  "digitChar d = (''0123456789'' ! d)"

function decimal :: "nat \<Rightarrow> string" where
  "decimal n = (if n < 10 then [digitChar n] else decimal (n div 10) @ [digitChar (n mod 10)])"
  by pat_completeness auto
termination
  by (relation "measure id") auto

declare decimal.simps [simp del]

definition showInt :: "int \<Rightarrow> string" where
  "showInt i = (if i < 0 then CHR ''-'' # decimal (nat (- i)) else decimal (nat i))"

subsection \<open>The cooldown ledger (bot.js, section 3)\<close>

text \<open>\<^verbatim>\<open>const cooldowns = {}\<close>: command name to user id to expiry instant.\<close>

type_synonym cooldownTable = "string \<Rightarrow> (string \<Rightarrow> int option) option"

definition DEFAULT_COOLDOWN_MS :: int where
  "DEFAULT_COOLDOWN_MS = 10 * 1000"

definition GLOBAL_DROP_COOLDOWN_MS :: int where
  "GLOBAL_DROP_COOLDOWN_MS = 5 * 60 * 1000"

definition DISCOUNT_LIFETIME_MS :: int where
  "DISCOUNT_LIFETIME_MS = 10 * 60 * 1000"

text \<open>The property names every object literal inherits from \<^verbatim>\<open>Object.prototype\<close>. A
  lookup \<^verbatim>\<open>obj[key]\<close> with one of these keys finds a built-in function (or the prototype
  itself) when the object has no such key of its own, and that value is truthy.\<close>

definition objectPrototypeKeys :: "string list" where
  "objectPrototypeKeys =
     [''constructor'', ''__proto__'', ''hasOwnProperty'', ''isPrototypeOf'',
      ''propertyIsEnumerable'', ''toLocaleString'', ''toString'', ''valueOf'',
      ''__defineGetter__'', ''__defineSetter__'', ''__lookupGetter__'', ''__lookupSetter__'']"

text \<open>\<^verbatim>\<open>cooldowns[command][userId] || 0\<close>. User ids are Twitch ids (decimal numerals),
  never a key of \<^verbatim>\<open>objectPrototypeKeys\<close>, so an id that was never stored reads as
  \<^verbatim>\<open>undefined\<close>.\<close>

definition expiresAt :: "cooldownTable \<Rightarrow> string \<Rightarrow> string \<Rightarrow> int" where
  "expiresAt cds command userId =
     (case cds command of
        None \<Rightarrow> 0
      | Some inner \<Rightarrow> (case inner userId of None \<Rightarrow> 0 | Some e \<Rightarrow> e))"

text \<open>\<^verbatim>\<open>Math.ceil(ms / 1000)\<close> on an integer number of milliseconds.\<close>

definition ceilSeconds :: "int \<Rightarrow> int" where
  "ceilSeconds ms = - ((- ms) div 1000)"

text \<open>\<^verbatim>\<open>isOnCooldown(command, userId)\<close> at the instant \<open>now\<close> that its \<^verbatim>\<open>Date.now()\<close>
  reads. Its first line creates \<^verbatim>\<open>cooldowns[command] = {}\<close> when the lookup is falsy,
  which an inherited key is not. The remaining seconds come first, the table second.\<close>

definition isOnCooldown :: "cooldownTable \<Rightarrow> string \<Rightarrow> string \<Rightarrow> int \<Rightarrow> int \<times> cooldownTable" where
  "isOnCooldown cds command userId now =
     (let cds1 = (if cds command = None \<and> command \<notin> set objectPrototypeKeys
                  then cds(command \<mapsto> Map.empty) else cds);
          e = expiresAt cds1 command userId
      in (if now < e then ceilSeconds (e - now) else 0, cds1))"

text \<open>\<^verbatim>\<open>setCooldown(command, userId, ms)\<close> at the instant \<open>now\<close>. Every caller passes
  \<open>ms\<close>, and only with a command name of the registry.\<close>

definition setCooldown :: "cooldownTable \<Rightarrow> string \<Rightarrow> string \<Rightarrow> int \<Rightarrow> int \<Rightarrow> cooldownTable" where
  "setCooldown cds command userId ms now =
     (let inner = (case cds command of None \<Rightarrow> Map.empty | Some m \<Rightarrow> m)
      in cds(command \<mapsto> inner(userId \<mapsto> now + ms)))"

subsection \<open>The per-viewer discount cache (bot.js, section 3)\<close>

text \<open>A value of the back end's JSON. Numbers are integers here: the bot only tests
  them for truthiness and prints them.\<close>

datatype json =
    JNull
  | JBool bool
  | JNum int
  | JStr string
  | JArr "json list"
  | JObj "(string \<times> json) list"

text \<open>\<^verbatim>\<open>{ code, createdAt: Date.now() }\<close>; \<open>None\<close> is a code that is \<^verbatim>\<open>undefined\<close>.\<close>

record claimedDiscount =
  code :: "json option"
  createdAt :: int

type_synonym claimTable = "string \<Rightarrow> (string \<Rightarrow> claimedDiscount option) option"

text \<open>\<^verbatim>\<open>getUserDiscount(channel, userId)\<close> at the instant \<open>now\<close>; \<open>None\<close> is \<^verbatim>\<open>null\<close>.
  The function assigns nothing, so it has no table to return.\<close>

definition getUserDiscount :: "claimTable \<Rightarrow> string \<Rightarrow> string \<Rightarrow> int \<Rightarrow> claimedDiscount option" where
  "getUserDiscount claims channel userId now =
     (case claims channel of
        None \<Rightarrow> None
      | Some perUser \<Rightarrow>
          (case perUser userId of
             None \<Rightarrow> None
           | Some entry \<Rightarrow>
               if now - createdAt entry > DISCOUNT_LIFETIME_MS then None else Some entry))"

definition setUserDiscount :: "claimTable \<Rightarrow> string \<Rightarrow> string \<Rightarrow> json option \<Rightarrow> int \<Rightarrow> claimTable" where
  "setUserDiscount claims channel userId c now =
     (let perUser = (case claims channel of None \<Rightarrow> Map.empty | Some m \<Rightarrow> m)
      in claims(channel \<mapsto> perUser(userId \<mapsto> \<lparr>code = c, createdAt = now\<rparr>)))"

subsection \<open>JavaScript values\<close>

text \<open>Truthiness of a JSON value; a missing property (\<open>None\<close>) is \<^verbatim>\<open>undefined\<close>, falsy.\<close>

fun truthy :: "json \<Rightarrow> bool" where
  "truthy JNull = False"
| "truthy (JBool b) = b"
| "truthy (JNum n) = (n \<noteq> 0)"
| "truthy (JStr s) = (s \<noteq> [])"
| "truthy (JArr xs) = True"
| "truthy (JObj kvs) = True"

definition truthyOpt :: "json option \<Rightarrow> bool" where
  "truthyOpt v = (case v of None \<Rightarrow> False | Some j \<Rightarrow> truthy j)"

text \<open>\<^verbatim>\<open>value.key\<close> for the keys the bot reads (ok, reason, message, error, drop, code,
  discountCode, retryAfterSeconds, channels): only an object has them. Reading a
  property of \<^verbatim>\<open>null\<close> throws; the callers below test for it first.\<close>

fun getProp :: "json \<Rightarrow> string \<Rightarrow> json option" where
  "getProp (JObj kvs) k = map_of kvs k"
| "getProp v k = None"

definition joinWith :: "string \<Rightarrow> string list \<Rightarrow> string" where
  "joinWith sep xs = (case xs of [] \<Rightarrow> [] | y # ys \<Rightarrow> foldl (\<lambda>acc x. acc @ sep @ x) y ys)"

text \<open>How a template literal prints a value. An array prints its elements joined by
  commas, \<^verbatim>\<open>null\<close> elements as nothing.\<close>

fun toStr :: "json \<Rightarrow> string" where
  "toStr JNull = ''null''"
| "toStr (JBool b) = (if b then ''true'' else ''false'')"
| "toStr (JNum n) = showInt n"
| "toStr (JStr s) = s"
| "toStr (JArr xs) = joinWith '','' (map (\<lambda>x. if x = JNull then [] else toStr x) xs)"
| "toStr (JObj kvs) = ''[object Object]''"

definition toStrOpt :: "json option \<Rightarrow> string" where
  "toStrOpt v = (case v of None \<Rightarrow> ''undefined'' | Some j \<Rightarrow> toStr j)"

definition strOrUndefined :: "string option \<Rightarrow> string" where
  "strOrUndefined v = (case v of None \<Rightarrow> ''undefined'' | Some s \<Rightarrow> s)"

definition strTruthy :: "string option \<Rightarrow> bool" where
  "strTruthy v = (case v of None \<Rightarrow> False | Some s \<Rightarrow> s \<noteq> [])"

text \<open>\<^verbatim>\<open>a || b\<close> on strings that may be \<^verbatim>\<open>undefined\<close>.\<close>

definition orElse :: "string option \<Rightarrow> string option \<Rightarrow> string option" where
  "orElse a b = (if strTruthy a then a else b)"

text \<open>\<^verbatim>\<open>{ ...fields, key: v }\<close>: a key the object has keeps its place, a new one goes last.\<close>

fun setField :: "string \<Rightarrow> json \<Rightarrow> (string \<times> json) list \<Rightarrow> (string \<times> json) list" where
  "setField k v [] = [(k, v)]"
| "setField k v (kv # kvs) = (if fst kv = k then (k, v) # kvs else kv # setField k v kvs)"

text \<open>\<^verbatim>\<open>parseInt(arg, 10)\<close> on a token (no white space inside) or on \<^verbatim>\<open>undefined\<close>: an
  optional sign, then the longest run of digits; \<open>None\<close> is \<^verbatim>\<open>NaN\<close>.\<close>

definition isDigit :: "char \<Rightarrow> bool" where
  "isDigit c = (c \<in> set ''0123456789'')"

definition digitValue :: "char \<Rightarrow> nat" where
  "digitValue c = of_char c - 48"

definition digitsValue :: "string \<Rightarrow> nat" where
  "digitsValue ds = foldl (\<lambda>acc c. 10 * acc + digitValue c) 0 ds"

definition parseDigits :: "string \<Rightarrow> nat option" where
  "parseDigits s = (let ds = takeWhile isDigit s in if ds = [] then None else Some (digitsValue ds))"

definition parseInt10 :: "string option \<Rightarrow> int option" where
  "parseInt10 arg =
     (case arg of
        None \<Rightarrow> None
      | Some s \<Rightarrow>
          (case s of
             [] \<Rightarrow> None
           | c # cs \<Rightarrow>
               if c = CHR ''-'' then map_option (\<lambda>n. - int n) (parseDigits cs)
               else if c = CHR ''+'' then map_option int (parseDigits cs)
               else map_option int (parseDigits s)))"

subsection \<open>The process and the world outside it\<close>

text \<open>The user state tmi.js hands to the message handler: \<^verbatim>\<open>tags["display-name"]\<close>,
  \<^verbatim>\<open>tags.username\<close>, \<^verbatim>\<open>tags["user-id"]\<close> and \<^verbatim>\<open>tags.badges\<close> (\<open>None\<close> where the
  property is missing or \<^verbatim>\<open>null\<close>).\<close>

record tags =
  tagDisplayName :: "string option"
  tagUsername :: "string option"
  tagUserId :: "string option"
  tagBadges :: "(string \<times> string) list option"

text \<open>One constructor for each template literal the bot passes to \<^verbatim>\<open>client.say\<close>; the
  arguments are the interpolated values, in the order of the template.
  \<^item> \<open>Pong\<close>: Pong! @name
  \<^item> \<open>AvailableCommands\<close>: @name Available commands: list
  \<^item> \<open>WaitForCode\<close>: @name wait Ns before requesting another code.
  \<^item> \<open>Generating\<close>: @name generating your personal discount code
  \<^item> \<open>ApiBadResponse\<close>: @name the Dropify API didn't respond correctly.
  \<^item> \<open>AtUser\<close>: @name text (the back end's own message or error)
  \<^item> \<open>DiscountsDisabled\<close>, \<open>NotConnected\<close>, \<open>AlreadyRedeemed\<close>, \<open>NotRegistered\<close>: the fixed
    replies of the reasons disabled, not_connected, limit_reached, not_found
  \<^item> \<open>ApiCooldown\<close>: @name Dropify is on cooldown, try again in about N seconds.
  \<^item> \<open>AlreadyClaimed\<close>: @name you already claimed a discount this stream: code
  \<^item> \<open>DiscountWentWrong\<close>: @name something went wrong while generating your discount.
  \<^item> \<open>YourCode\<close>: @name your code: code, valid for ~10 minutes!
  \<^item> \<open>OnlyStreamer\<close>: @name only the streamer can activate global drops.
  \<^item> \<open>GlobalDropCooldown\<close>: @name global drop is on cooldown. Try again in Ns.
  \<^item> \<open>DropUsage\<close>: @name use: !drop <1-50> (example: !drop 10)
  \<^item> \<open>CreatingDrop\<close>: @name is creating a global N% drop, stand by!
  \<^item> \<open>DropNotConfigured\<close>: @name could not create a global drop (Shopify not configured?).
  \<^item> \<open>DropActivated\<close>: GLOBAL DROP ACTIVATED! Code: code, N% OFF for the next 10 minutes
  \<^item> \<open>DropWentWrong\<close>: @name something went wrong creating the drop.
  \<^item> \<open>NotAllowed\<close>: @name You are not allowed to use this command.
  \<^item> \<open>Reloading\<close>, \<open>Synced\<close>: the two replies of reload
  \<^item> \<open>WaitBeforeUsing\<close>: @name wait Ns before using PREFIXcommand again.
  \<^item> \<open>ExecFailed\<close>: @name something went wrong executing PREFIXcommand.
\<close>

datatype reply =
    Pong string
  | AvailableCommands string string
  | WaitForCode string int
  | Generating string
  | ApiBadResponse string
  | AtUser string string
  | DiscountsDisabled string
  | NotConnected string
  | ApiCooldown string string
  | AlreadyClaimed string string
  | AlreadyRedeemed string
  | NotRegistered string
  | DiscountWentWrong string
  | YourCode string string
  | OnlyStreamer string
  | GlobalDropCooldown string int
  | DropUsage string
  | CreatingDrop string int
  | DropNotConfigured string
  | DropActivated string int
  | DropWentWrong string
  | NotAllowed string
  | Reloading
  | Synced
  | WaitBeforeUsing string int string string
  | ExecFailed string string string

text \<open>What leaves the process besides chat lines: the POST of discountApi.js (streamer
  login, viewer id, login and display name), the POST of \<^verbatim>\<open>callBackend\<close> (path and
  percent), the GET of the active streamers, and \<^verbatim>\<open>client.join\<close>.\<close>

datatype outcall =
    ViewerDiscountPost string string "string option" "string option"
  | BackendPost string int
  | ActiveStreamersGet
  | JoinChannel string

text \<open>A response of \<^verbatim>\<open>fetch\<close>: the status, the content-type header (\<open>None\<close> when it is
  absent) and what \<^verbatim>\<open>res.text()\<close> resolves to (\<open>None\<close> when reading the body rejects).\<close>

record response =
  status :: nat
  contentType :: "string option"
  bodyText :: "string option"

text \<open>\<^verbatim>\<open>fetch\<close> rejects with an error (its message), or resolves to a response.\<close>

datatype fetchOutcome = FetchRejects string | FetchResolves response

text \<open>axios with \<^verbatim>\<open>validateStatus: () => true\<close>: it rejects only when no response
  arrives (\<^verbatim>\<open>err.response.data\<close> is then \<^verbatim>\<open>undefined\<close>, or what the error carries), and
  resolves to a status and the decoded body (a text body is a \<open>JStr\<close>).\<close>

datatype axiosOutcome = AxiosRejects "json option" | AxiosResolves nat json

datatype error =
    SayRejected
  | JoinRejected
  | TypeError
  | BodyReadRejected
  | AxiosError "json option"

text \<open>The world outside, read by position: the value of the n-th \<^verbatim>\<open>Date.now()\<close>,
  whether the n-th \<^verbatim>\<open>client.say\<close> resolves, and what the n-th outgoing call meets.
  \<^verbatim>\<open>JSON.parse\<close> is a built-in, taken as a parameter (\<open>None\<close>: it throws). The last
  two fields are \<^verbatim>\<open>process.env.COMMAND_PREFIX\<close> and \<^verbatim>\<open>process.env.OWNER_USERNAME\<close>.\<close>

record outside =
  clock :: "nat \<Rightarrow> int"
  sayResolves :: "nat \<Rightarrow> bool"
  fetchResult :: "nat \<Rightarrow> fetchOutcome"
  axiosResult :: "nat \<Rightarrow> axiosOutcome"
  joinResolves :: "nat \<Rightarrow> bool"
  jsonParse :: "string \<Rightarrow> json option"
  envCommandPrefix :: "string option"
  envOwnerUsername :: "string option"

definition COMMAND_PREFIX :: "outside \<Rightarrow> string" where
  "COMMAND_PREFIX out = (case envCommandPrefix out of None \<Rightarrow> ''!'' | Some p \<Rightarrow> if p = [] then ''!'' else p)"

definition OWNER_USERNAME :: "outside \<Rightarrow> string" where
  "OWNER_USERNAME out = (case envOwnerUsername out of None \<Rightarrow> [] | Some name \<Rightarrow> name)"

text \<open>The module-level state of bot.js, and the trace of what the process did: every
  call of \<^verbatim>\<open>client.say\<close> (channel and text, whether or not it resolved), every outgoing
  call, and the number of \<^verbatim>\<open>Date.now()\<close> so far.\<close>

record world =
  cooldowns :: cooldownTable
  claimedDiscounts :: claimTable
  lastGlobalDropAt :: int
  joinedChannels :: "string list"
  said :: "(string \<times> reply) list"
  calls :: "outcall list"
  clockReads :: nat

text \<open>The state when the module has loaded; \<open>chans\<close> are the channels of the
  environment.\<close>

definition initialWorld :: "string list \<Rightarrow> world" where
  "initialWorld chans =
     \<lparr>cooldowns = Map.empty, claimedDiscounts = Map.empty, lastGlobalDropAt = 0,
      joinedChannels = chans, said = [], calls = [], clockReads = 0\<rparr>"

definition dateNow :: "outside \<Rightarrow> world \<Rightarrow> int \<times> world" where
  "dateNow out w = (clock out (clockReads w), w\<lparr>clockReads := Suc (clockReads w)\<rparr>)"

text \<open>\<^verbatim>\<open>client.say(channel, text)\<close>: the call is recorded, and it resolves or rejects.\<close>

definition say :: "outside \<Rightarrow> string \<Rightarrow> reply \<Rightarrow> world \<Rightarrow> (error + unit) \<times> world" where
  "say out channel r w =
     (let w1 = w\<lparr>said := said w @ [(channel, r)]\<rparr>
      in if sayResolves out (length (said w)) then (Inr (), w1) else (Inl SayRejected, w1))"

text \<open>The four ledger functions as the process runs them: each reads \<^verbatim>\<open>Date.now()\<close>
  once, \<^verbatim>\<open>getUserDiscount\<close> only when it has found an entry.\<close>

definition isOnCooldownNow :: "outside \<Rightarrow> string \<Rightarrow> string \<Rightarrow> world \<Rightarrow> int \<times> world" where
  "isOnCooldownNow out command userId w =
     (let (t, w1) = dateNow out w;
          (cd, cds) = isOnCooldown (cooldowns w1) command userId t
      in (cd, w1\<lparr>cooldowns := cds\<rparr>))"

definition setCooldownNow :: "outside \<Rightarrow> string \<Rightarrow> string \<Rightarrow> int \<Rightarrow> world \<Rightarrow> world" where
  "setCooldownNow out command userId ms w =
     (let (t, w1) = dateNow out w
      in w1\<lparr>cooldowns := setCooldown (cooldowns w1) command userId ms t\<rparr>)"

definition getUserDiscountNow :: "outside \<Rightarrow> string \<Rightarrow> string \<Rightarrow> world \<Rightarrow> claimedDiscount option \<times> world" where
  "getUserDiscountNow out channel userId w =
     (case (case claimedDiscounts w channel of None \<Rightarrow> None | Some perUser \<Rightarrow> perUser userId) of
        None \<Rightarrow> (None, w)
      | Some entry \<Rightarrow>
          (let (t, w1) = dateNow out w
           in (getUserDiscount (claimedDiscounts w1) channel userId t, w1)))"

definition setUserDiscountNow :: "outside \<Rightarrow> string \<Rightarrow> string \<Rightarrow> json option \<Rightarrow> world \<Rightarrow> world" where
  "setUserDiscountNow out channel userId c w =
     (let (t, w1) = dateNow out w
      in w1\<lparr>claimedDiscounts := setUserDiscount (claimedDiscounts w1) channel userId c t\<rparr>)"

subsection \<open>discountApi.js\<close>

text \<open>\<^verbatim>\<open>haystack.includes(needle)\<close>.\<close>

fun hasSubstring :: "string \<Rightarrow> string \<Rightarrow> bool" where
  "hasSubstring [] needle = (needle = [])"
| "hasSubstring (c # cs) needle = (startsWith (c # cs) needle \<or> hasSubstring cs needle)"

text \<open>The \<^verbatim>\<open>{ kind, data }\<close> of \<^verbatim>\<open>readJsonOrText\<close>.\<close>

datatype parsed = KindJson json | KindText string

text \<open>\<^verbatim>\<open>readJsonOrText(res)\<close>. Its \<^verbatim>\<open>await res.text()\<close> stands outside both of its
  \<^verbatim>\<open>try\<close> blocks, so a body that cannot be read rejects the whole call.\<close>

definition readJsonOrText :: "(string \<Rightarrow> json option) \<Rightarrow> response \<Rightarrow> error + parsed" where
  "readJsonOrText parse res =
     (let ct = toLowerCase (case contentType res of None \<Rightarrow> [] | Some h \<Rightarrow> h)
      in case bodyText res of
           None \<Rightarrow> Inl BodyReadRejected
         | Some raw \<Rightarrow>
             if hasSubstring ct ''application/json''
             then (case parse raw of Some d \<Rightarrow> Inr (KindJson d) | None \<Rightarrow> Inr (KindText raw))
             else (case parse raw of Some d \<Rightarrow> Inr (KindJson d) | None \<Rightarrow> Inr (KindText raw)))"

text \<open>The own enumerable properties that \<^verbatim>\<open>{ ...data }\<close> copies, for a truthy \<^verbatim>\<open>data\<close> of
  type object: the fields of an object, the indexed elements of an array.\<close>

definition spreadFields :: "json \<Rightarrow> (string \<times> json) list option" where
  "spreadFields d =
     (case d of
        JObj kvs \<Rightarrow> Some kvs
      | JArr xs \<Rightarrow> Some (zip (map decimal [0 ..< length xs]) xs)
      | _ \<Rightarrow> None)"

text \<open>\<^verbatim>\<open>requestViewerDiscount(streamerLogin, viewer)\<close> from the outcome of its \<^verbatim>\<open>fetch\<close>
  on. The right injection is the object the function returns, the left one a rejection
  of its promise.\<close>

definition viewerDiscountResult :: "(string \<Rightarrow> json option) \<Rightarrow> fetchOutcome \<Rightarrow> error + json" where
  "viewerDiscountResult parse outcome =
     (case outcome of
        FetchRejects msg \<Rightarrow>
          Inr (JObj [(''ok'', JBool False), (''reason'', JStr ''network_error''),
                     (''message'', JStr ''Failed to reach Dropify API.''), (''error'', JStr msg)])
      | FetchResolves res \<Rightarrow>
          (case readJsonOrText parse res of
             Inl e \<Rightarrow> Inl e
           | Inr p \<Rightarrow>
               (case (case p of KindJson d \<Rightarrow> spreadFields d | KindText t \<Rightarrow> None) of
                  Some kvs \<Rightarrow> Inr (JObj (setField ''httpStatus'' (JNum (int (status res))) kvs))
                | None \<Rightarrow>
                    Inr (JObj [(''ok'', JBool False),
                               (''reason'', JStr (if status res = 404 then ''not_found'' else ''http_error'')),
                               (''message'', JStr (''Dropify API returned HTTP '' @ decimal (status res))),
                               (''httpStatus'', JNum (int (status res))),
                               (''raw'', (case p of
                                            KindText t \<Rightarrow> JStr (take 500 t)
                                          | KindJson (JStr t) \<Rightarrow> JStr (take 500 t)
                                          | KindJson d \<Rightarrow> d))]))))"

text \<open>The whole call: the request goes out (it is the next outgoing call of the
  process), and the world answers.\<close>

definition requestViewerDiscount ::
    "outside \<Rightarrow> string \<Rightarrow> string \<Rightarrow> string option \<Rightarrow> string option \<Rightarrow> world \<Rightarrow> (error + json) \<times> world" where
  "requestViewerDiscount out streamerLogin vId vLogin vDisplayName w =
     (viewerDiscountResult (jsonParse out) (fetchResult out (length (calls w))),
      w\<lparr>calls := calls w @ [ViewerDiscountPost (toLowerCase streamerLogin) vId vLogin vDisplayName]\<rparr>)"

subsection \<open>The Shopify client: the code of a personal discount\<close>





subsection \<open>bot.js: the back end\<close>

text \<open>\<^verbatim>\<open>callBackend(path, "POST", { percent })\<close>.\<close>

definition callBackend :: "outside \<Rightarrow> string \<Rightarrow> int \<Rightarrow> world \<Rightarrow> (error + json) \<times> world" where
  "callBackend out path percent w =
     (let w1 = w\<lparr>calls := calls w @ [BackendPost path percent]\<rparr>
      in case axiosResult out (length (calls w)) of
           AxiosRejects payload \<Rightarrow> (Inl (AxiosError payload), w1)
         | AxiosResolves st d \<Rightarrow>
             (if spreadFields d \<noteq> None then (Inr d, w1)
              else (Inr (JObj [(''ok'', JBool False),
                              (''error'', JStr (''Backend returned HTTP '' @ decimal st)),
                              (''status'', JNum (int st)), (''raw'', d)]), w1)))"

text \<open>One turn of the loop of \<^verbatim>\<open>syncJoinsFromBackend\<close>: a channel not yet joined is
  joined; a join that rejects is logged and the loop goes on.\<close>

definition joinOne :: "outside \<Rightarrow> world \<Rightarrow> string \<Rightarrow> world" where
  "joinOne out w ch =
     (if ch \<in> set (joinedChannels w) then w
      else (let w1 = w\<lparr>calls := calls w @ [JoinChannel ch]\<rparr>
            in if joinResolves out (length (calls w))
               then w1\<lparr>joinedChannels := joinedChannels w1 @ [ch]\<rparr> else w1))"

text \<open>\<^verbatim>\<open>syncJoinsFromBackend()\<close>: it catches everything, so it only returns a world.\<close>

definition syncJoinsFromBackend :: "outside \<Rightarrow> world \<Rightarrow> world" where
  "syncJoinsFromBackend out w =
     (let w1 = w\<lparr>calls := calls w @ [ActiveStreamersGet]\<rparr>
      in case axiosResult out (length (calls w)) of
           AxiosRejects payload \<Rightarrow> w1
         | AxiosResolves st d \<Rightarrow>
             (if \<not> truthy d \<or> getProp d ''ok'' \<noteq> Some (JBool True) then w1
              else (case getProp d ''channels'' of
                      Some (JArr cs) \<Rightarrow>
                        foldl (joinOne out) w1
                          (filter (\<lambda>c. c \<noteq> [])
                             (map (\<lambda>c. toLowerCase (trim (if truthy c then toStr c else []))) cs))
                    | _ \<Rightarrow> w1)))"

subsection \<open>bot.js: the commands\<close>

text \<open>The keys of \<^verbatim>\<open>COMMANDS\<close>, in the order of the object literal.\<close>

definition commandNames :: "string list" where
  "commandNames = [''ping'', ''help'', ''discount'', ''drop'', ''reload'']"

definition COMMAND_COOLDOWNS :: "string \<Rightarrow> int option" where
  "COMMAND_COOLDOWNS =
     map_of [(''ping'', 1000), (''help'', 2000), (''discount'', 30 * 1000),
             (''drop'', GLOBAL_DROP_COOLDOWN_MS)]"

text \<open>\<^verbatim>\<open>tags["user-id"] || username.toLowerCase()\<close>: the method call throws when the
  user name is \<^verbatim>\<open>undefined\<close>.\<close>

definition userIdOf :: "tags \<Rightarrow> string option \<Rightarrow> error + string" where
  "userIdOf tg uname =
     (if strTruthy (tagUserId tg) then Inr (strOrUndefined (tagUserId tg))
      else (case uname of None \<Rightarrow> Inl TypeError | Some u \<Rightarrow> Inr (toLowerCase u)))"

text \<open>\<^verbatim>\<open>value?.key\<close>.\<close>

definition optProp :: "json option \<Rightarrow> string \<Rightarrow> json option" where
  "optProp v k = (case v of None \<Rightarrow> None | Some j \<Rightarrow> getProp j k)"

definition executePing :: "outside \<Rightarrow> string \<Rightarrow> tags \<Rightarrow> world \<Rightarrow> (error + unit) \<times> world" where
  "executePing out channel tg w = say out channel (Pong (strOrUndefined (tagDisplayName tg))) w"

definition executeHelp :: "outside \<Rightarrow> string \<Rightarrow> tags \<Rightarrow> world \<Rightarrow> (error + unit) \<times> world" where
  "executeHelp out channel tg w =
     say out channel
       (AvailableCommands (strOrUndefined (tagDisplayName tg))
          (joinWith '', '' (map (\<lambda>c. COMMAND_PREFIX out @ c) commandNames))) w"

text \<open>The personal discount, from the line after \<^verbatim>\<open>await requestViewerDiscount\<close> to the
  end of the \<^verbatim>\<open>try\<close> block. Every \<^verbatim>\<open>return client.say(...)\<close> hands the promise of
  \<^verbatim>\<open>client.say\<close> to the caller without awaiting it, so the \<^verbatim>\<open>catch\<close> of the handler
  does not see its rejection.\<close>

definition discountOutcome ::
    "outside \<Rightarrow> string \<Rightarrow> string \<Rightarrow> string \<Rightarrow> json \<Rightarrow> world \<Rightarrow> (error + unit) \<times> world" where
  "discountOutcome out channel name userId result w =
     (if \<not> truthy result \<or> getProp result ''ok'' = None
      then say out channel (ApiBadResponse name) w
      else if \<not> truthyOpt (getProp result ''ok'')
      then (if getProp result ''reason'' = Some (JStr ''plan_limit'') \<and> truthyOpt (getProp result ''message'')
            then say out channel (AtUser name (toStrOpt (getProp result ''message''))) w
            else if getProp result ''reason'' = Some (JStr ''disabled'')
            then say out channel (DiscountsDisabled name) w
            else if getProp result ''reason'' = Some (JStr ''not_connected'')
            then say out channel (NotConnected name) w
            else if getProp result ''reason'' = Some (JStr ''cooldown'')
            then say out channel
                   (ApiCooldown name
                      (if truthyOpt (getProp result ''retryAfterSeconds'')
                       then toStrOpt (getProp result ''retryAfterSeconds'') else ''10'')) w
            else if getProp result ''reason'' = Some (JStr ''limit_reached'')
            then (case getUserDiscountNow out channel userId w of
                    (None, w1) \<Rightarrow> say out channel (AlreadyRedeemed name) w1
                  | (Some existing, w1) \<Rightarrow>
                      if truthyOpt (code existing)
                      then say out channel (AlreadyClaimed name (toStrOpt (code existing))) w1
                      else say out channel (AlreadyRedeemed name) w1)
            else if getProp result ''reason'' = Some (JStr ''not_found'')
            then say out channel (NotRegistered name) w
            else say out channel (DiscountWentWrong name) w)
      else (let c = getProp result ''discountCode'';
                w1 = setUserDiscountNow out channel userId c w;
                w2 = setCooldownNow out ''discount'' userId (the (COMMAND_COOLDOWNS ''discount'')) w1
            in say out channel (YourCode name (toStrOpt c)) w2))"

text \<open>\<^verbatim>\<open>COMMANDS.discount.execute(channel, tags)\<close>.\<close>

definition executeDiscount :: "outside \<Rightarrow> string \<Rightarrow> tags \<Rightarrow> world \<Rightarrow> (error + unit) \<times> world" where
  "executeDiscount out channel tg w =
     (let uname = orElse (tagDisplayName tg) (tagUsername tg);
          name = strOrUndefined uname
      in case userIdOf tg uname of
           Inl e \<Rightarrow> (Inl e, w)
         | Inr userId \<Rightarrow>
             (let twitchLogin = toLowerCase (removeFirstHash channel);
                  (cd, w2) = isOnCooldownNow out ''discount'' userId w
              in if cd > 0 then say out channel (WaitForCode name cd) w2
                 else (case say out channel (Generating name) w2 of
                         (Inl e, w3) \<Rightarrow> (Inl e, w3)
                       | (Inr u, w3) \<Rightarrow>
                           (case requestViewerDiscount out twitchLogin userId (tagUsername tg) uname w3 of
                              (Inl e, w4) \<Rightarrow> say out channel (DiscountWentWrong name) w4
                            | (Inr result, w4) \<Rightarrow> discountOutcome out channel name userId result w4))))"

text \<open>The \<^verbatim>\<open>catch\<close> of the global drop: \<open>payload\<close> is \<^verbatim>\<open>err?.response?.data\<close>.\<close>

definition dropCatch :: "outside \<Rightarrow> string \<Rightarrow> string \<Rightarrow> json option \<Rightarrow> world \<Rightarrow> (error + unit) \<times> world" where
  "dropCatch out channel name payload w =
     (if optProp payload ''reason'' = Some (JStr ''plan_limit'') \<and> truthyOpt (optProp payload ''message'')
      then say out channel (AtUser name (toStrOpt (optProp payload ''message''))) w
      else say out channel (DropWentWrong name) w)"

text \<open>The \<^verbatim>\<open>try\<close> block of the global drop after \<^verbatim>\<open>await callBackend\<close>. Reading
  \<^verbatim>\<open>data.drop.code\<close> throws a TypeError when \<^verbatim>\<open>data.drop\<close> is missing or \<^verbatim>\<open>null\<close>; that
  one is thrown inside the block and caught.\<close>

definition dropOutcome ::
    "outside \<Rightarrow> string \<Rightarrow> string \<Rightarrow> int \<Rightarrow> json \<Rightarrow> world \<Rightarrow> (error + unit) \<times> world" where
  "dropOutcome out channel name percent d w =
     (if \<not> truthyOpt (getProp d ''ok'')
      then (if getProp d ''reason'' = Some (JStr ''plan_limit'') \<and> truthyOpt (getProp d ''message'')
            then say out channel (AtUser name (toStrOpt (getProp d ''message''))) w
            else if truthyOpt (getProp d ''error'')
            then say out channel (AtUser name (toStrOpt (getProp d ''error''))) w
            else say out channel (DropNotConfigured name) w)
      else (case getProp d ''drop'' of
              None \<Rightarrow> dropCatch out channel name None w
            | Some JNull \<Rightarrow> dropCatch out channel name None w
            | Some dr \<Rightarrow>
                (let c = getProp dr ''code'';
                     (t, w1) = dateNow out w;
                     w2 = w1\<lparr>lastGlobalDropAt := t\<rparr>
                 in say out channel (DropActivated (toStrOpt c) percent) w2)))"

text \<open>\<^verbatim>\<open>tags.badges && tags.badges.broadcaster === "1"\<close>.\<close>

definition isStreamer :: "tags \<Rightarrow> bool" where
  "isStreamer tg = (case tagBadges tg of None \<Rightarrow> False | Some b \<Rightarrow> map_of b ''broadcaster'' = Some ''1'')"

text \<open>\<^verbatim>\<open>COMMANDS.drop.execute(channel, tags, args)\<close>.\<close>

definition executeDrop ::
    "outside \<Rightarrow> string \<Rightarrow> tags \<Rightarrow> string list \<Rightarrow> world \<Rightarrow> (error + unit) \<times> world" where
  "executeDrop out channel tg args w =
     (let name = strOrUndefined (tagDisplayName tg);
          twitchLogin = removeFirstHash channel
      in if \<not> isStreamer tg then say out channel (OnlyStreamer name) w
         else (let (now, w1) = dateNow out w;
                   sinceLast = now - lastGlobalDropAt w1
               in if sinceLast < GLOBAL_DROP_COOLDOWN_MS
                  then say out channel
                         (GlobalDropCooldown name (ceilSeconds (GLOBAL_DROP_COOLDOWN_MS - sinceLast))) w1
                  else (case parseInt10 (case args of [] \<Rightarrow> None | a # rest \<Rightarrow> Some a) of
                          None \<Rightarrow> say out channel (DropUsage name) w1
                        | Some percent \<Rightarrow>
                            if percent < 1 \<or> percent > 50 then say out channel (DropUsage name) w1
                            else (case say out channel (CreatingDrop name percent) w1 of
                                    (Inl e, w2) \<Rightarrow> (Inl e, w2)
                                  | (Inr u, w2) \<Rightarrow>
                                      (case callBackend out (''/api/discounts/'' @ twitchLogin @ ''/global'')
                                              percent w2 of
                                         (Inl e, w3) \<Rightarrow>
                                           dropCatch out channel name
                                             (case e of AxiosError payload \<Rightarrow> payload | _ \<Rightarrow> None) w3
                                       | (Inr d, w3) \<Rightarrow> dropOutcome out channel name percent d w3)))))"

text \<open>\<^verbatim>\<open>COMMANDS.reload.execute(channel, tags)\<close>.\<close>

definition executeReload :: "outside \<Rightarrow> string \<Rightarrow> tags \<Rightarrow> world \<Rightarrow> (error + unit) \<times> world" where
  "executeReload out channel tg w =
     (if OWNER_USERNAME out = [] \<or> map_option toLowerCase (tagUsername tg) \<noteq> Some (toLowerCase (OWNER_USERNAME out))
      then say out channel (NotAllowed (strOrUndefined (tagDisplayName tg))) w
      else (case say out channel Reloading w of
              (Inl e, w1) \<Rightarrow> (Inl e, w1)
            | (Inr u, w1) \<Rightarrow> say out channel Synced (syncJoinsFromBackend out w1)))"

subsection \<open>bot.js: the message handler\<close>

text \<open>\<^verbatim>\<open>COMMANDS[commandName]\<close> is truthy for the five commands, and also for a name
  that the object literal inherits.\<close>

definition commandFound :: "string \<Rightarrow> bool" where
  "commandFound commandName = (commandName \<in> set commandNames \<or> commandName \<in> set objectPrototypeKeys)"

text \<open>\<^verbatim>\<open>await command.execute(channel, tags, args)\<close>. An inherited value has no
  \<^verbatim>\<open>execute\<close>, and calling \<^verbatim>\<open>undefined\<close> throws a TypeError.\<close>

definition execute ::
    "outside \<Rightarrow> string \<Rightarrow> string \<Rightarrow> tags \<Rightarrow> string list \<Rightarrow> world \<Rightarrow> (error + unit) \<times> world" where
  "execute out commandName channel tg args w =
     (if commandName = ''ping'' then executePing out channel tg w
      else if commandName = ''help'' then executeHelp out channel tg w
      else if commandName = ''discount'' then executeDiscount out channel tg w
      else if commandName = ''drop'' then executeDrop out channel tg args w
      else if commandName = ''reload'' then executeReload out channel tg w
      else (Inl TypeError, w))"

text \<open>The part of the message handler from \<^verbatim>\<open>const userId\<close> on: the cooldown check,
  the \<^verbatim>\<open>try\<close> around the command, the commit of the cooldown, the \<^verbatim>\<open>catch\<close>.\<close>

definition runCommand ::
    "outside \<Rightarrow> string \<Rightarrow> tags \<Rightarrow> string option \<Rightarrow> string \<Rightarrow> string list \<Rightarrow> world \<Rightarrow> (error + unit) \<times> world" where
  "runCommand out channel tg uname commandName args w =
     (case userIdOf tg uname of
        Inl e \<Rightarrow> (Inl e, w)
      | Inr userId \<Rightarrow>
          (let (cd, w2) = isOnCooldownNow out commandName userId w
           in if cd > 0 \<and> commandName \<noteq> ''discount''
              then say out channel
                     (WaitBeforeUsing (strOrUndefined uname) cd (COMMAND_PREFIX out) commandName) w2
              else (case execute out commandName channel tg args w2 of
                      (Inr u, w3) \<Rightarrow>
                        if commandName \<noteq> ''discount''
                        then (let customCd = (case COMMAND_COOLDOWNS commandName of
                                                None \<Rightarrow> DEFAULT_COOLDOWN_MS
                                              | Some ms \<Rightarrow> ms)
                              in (Inr (), setCooldownNow out commandName userId customCd w3))
                        else (Inr (), w3)
                    | (Inl e, w3) \<Rightarrow>
                        say out channel
                          (ExecFailed (strOrUndefined uname) (COMMAND_PREFIX out) commandName) w3)))"

text \<open>\<^verbatim>\<open>client.on("message", async (channel, tags, message, self) => ...)\<close>. The right
  injection is a promise that resolves, the left one a promise that rejects.\<close>

definition onMessage ::
    "outside \<Rightarrow> string \<Rightarrow> tags \<Rightarrow> string \<Rightarrow> bool \<Rightarrow> world \<Rightarrow> (error + unit) \<times> world" where
  "onMessage out channel tg message self w =
     (if self then (Inr (), w)
      else (let uname = orElse (tagDisplayName tg) (tagUsername tg)
            in if \<not> startsWith message (COMMAND_PREFIX out) then (Inr (), w)
               else (let withoutPrefix = trim (drop (length (COMMAND_PREFIX out)) message)
                     in if withoutPrefix = [] then (Inr (), w)
                        else (let parts = splitWhiteSpace withoutPrefix;
                                  commandName = toLowerCase (hd parts);
                                  args = tl parts
                              in if \<not> commandFound commandName then (Inr (), w)
                                 else runCommand out channel tg uname commandName args w))))"

subsection \<open>Observing an invocation\<close>

text \<open>The chat lines that the process sent on its way from the world \<open>w\<close> to the world
  \<open>w'\<close>, and the reply of the \<^verbatim>\<open>catch\<close> of the message handler among them.\<close>

definition saidSince :: "world \<Rightarrow> world \<Rightarrow> (string \<times> reply) list" where
  "saidSince w w' = drop (length (said w)) (said w')"



subsection \<open>Example inputs\<close>

text \<open>A world outside in which everything works: the clock advances one second per
  reading, every chat line is delivered, the discount API answers with a code and the
  back end with a drop.\<close>

definition calmOutside :: outside where
  "calmOutside =
     \<lparr>clock = (\<lambda>n. 1700000000000 + 1000 * int n),
      sayResolves = (\<lambda>n. True),
      fetchResult = (\<lambda>n. FetchResolves
                       \<lparr>status = 200, contentType = Some ''application/json'', bodyText = Some ''OK''\<rparr>),
      axiosResult = (\<lambda>n. AxiosResolves 200
                       (JObj [(''ok'', JBool True), (''drop'', JObj [(''code'', JStr ''HYPE10'')])])),
      joinResolves = (\<lambda>n. True),
      jsonParse = (\<lambda>s. if s = ''OK''
                        then Some (JObj [(''ok'', JBool True), (''discountCode'', JStr ''DROP-ALICE-1234'')])
                        else None),
      envCommandPrefix = None,
      envOwnerUsername = None\<rparr>"

definition alice :: tags where
  "alice = \<lparr>tagDisplayName = Some ''Alice'', tagUsername = Some ''alice'',
            tagUserId = Some ''1001'', tagBadges = None\<rparr>"

definition bob :: tags where
  "bob = \<lparr>tagDisplayName = Some ''Bob'', tagUsername = Some ''bob'',
          tagUserId = Some ''1002'', tagBadges = Some [(''broadcaster'', ''1'')]\<rparr>"

definition carol :: tags where
  "carol = \<lparr>tagDisplayName = Some ''Carol'', tagUsername = Some ''carol'',
            tagUserId = Some ''1003'', tagBadges = Some [(''broadcaster'', ''1'')]\<rparr>"

section \<open>The ledger\<close>









text \<open>
  Claim C4. For every channel and user with a recorded claim, \<^verbatim>\<open>getUserDiscount\<close>
  returns the stored claim exactly when now - createdAt is at most 10 minutes (600000 ms)
  and \<^verbatim>\<open>null\<close> otherwise: the stored claim at createdAt + lifetime - eps, \<^verbatim>\<open>null\<close> at
  createdAt + lifetime + eps, for every eps > 0. The function only reads the table (it
  returns no table), so the entry stays stored: a later call at an earlier instant
  finds it again.
\<close>

theorem getActiveClaim_spec:
  "claims channel = Some perUser \<and> perUser userId = Some entry \<longrightarrow>
     getUserDiscount claims channel userId now =
       (if now - createdAt entry \<le> 10 * 60 * 1000 then Some entry else None)
     \<and> (0 < eps \<longrightarrow>
          getUserDiscount claims channel userId (createdAt entry + DISCOUNT_LIFETIME_MS - eps) = Some entry
        \<and> getUserDiscount claims channel userId (createdAt entry + DISCOUNT_LIFETIME_MS + eps) = None)"
  by (simp add: getUserDiscount_def DISCOUNT_LIFETIME_MS_def)

theorem getActiveClaim_spec_witness:
  "getUserDiscount (setUserDiscount Map.empty ''#bob'' ''1001'' (Some (JStr ''DROP-ALICE-1234'')) 5000)
      ''#bob'' ''1001'' 604999 = Some \<lparr>code = Some (JStr ''DROP-ALICE-1234''), createdAt = 5000\<rparr>
   \<and> getUserDiscount (setUserDiscount Map.empty ''#bob'' ''1001'' (Some (JStr ''DROP-ALICE-1234'')) 5000)
      ''#bob'' ''1001'' 605001 = None"
  using getActiveClaim_spec
    [of "setUserDiscount Map.empty ''#bob'' ''1001'' (Some (JStr ''DROP-ALICE-1234'')) 5000" "''#bob''"
        "Map.empty(''1001'' \<mapsto> \<lparr>code = Some (JStr ''DROP-ALICE-1234''), createdAt = 5000\<rparr>)"
        "''1001''" "\<lparr>code = Some (JStr ''DROP-ALICE-1234''), createdAt = 5000\<rparr>" 604999 1]
  by (simp add: setUserDiscount_def DISCOUNT_LIFETIME_MS_def)

section \<open>The code of a personal discount\<close>










section \<open>The discount API\<close>

lemma map_of_setField:
  "map_of (setField k v kvs) k' = (if k' = k then Some v else map_of kvs k')"
  by (induction kvs) auto

lemma viewerDiscountResult_readable:
  "viewerDiscountResult parse (FetchRejects msg) =
     Inr (JObj [(''ok'', JBool False), (''reason'', JStr ''network_error''),
                (''message'', JStr ''Failed to reach Dropify API.''), (''error'', JStr msg)])
   \<and> (bodyText res = Some raw \<longrightarrow>
        (\<exists>r. viewerDiscountResult parse (FetchResolves res) = Inr r)
        \<and> (parse raw = None \<longrightarrow>
             (\<exists>r. viewerDiscountResult parse (FetchResolves res) = Inr r
                  \<and> getProp r ''ok'' = Some (JBool False)
                  \<and> getProp r ''reason'' = Some (JStr (if status res = 404 then ''not_found'' else ''http_error''))))
        \<and> (\<forall>kvs. parse raw = Some (JObj kvs) \<longrightarrow>
             viewerDiscountResult parse (FetchResolves res)
               = Inr (JObj (setField ''httpStatus'' (JNum (int (status res))) kvs))))"
  by (auto simp add: viewerDiscountResult_def readJsonOrText_def spreadFields_def Let_def
       split: option.splits json.splits parsed.splits)

text \<open>
  Claim C10 says that \<^verbatim>\<open>requestViewerDiscount\<close> never throws. It does when the response
  arrives but its body cannot be read: \<^verbatim>\<open>await res.text()\<close> in \<^verbatim>\<open>readJsonOrText\<close> stands
  outside every \<^verbatim>\<open>try\<close>, so its rejection rejects the whole call. (The lemma before
  this one has the rest of the claim, for a body that can be read.)
\<close>

theorem requestViewerDiscount_body_read_rejects:
  "fst (requestViewerDiscount
          (calmOutside\<lparr>fetchResult :=
             (\<lambda>n. FetchResolves \<lparr>status = 200, contentType = Some ''application/json'', bodyText = None\<rparr>)\<rparr>)
          ''bob'' ''1001'' (Some ''alice'') (Some ''Alice'') (initialWorld []))
     = Inl BodyReadRejected"
  by (simp add: requestViewerDiscount_def viewerDiscountResult_def readJsonOrText_def calmOutside_def)

section \<open>What the commands do to the process\<close>

lemma say_eq:
  "say out ch r w =
     (if sayResolves out (length (said w)) then Inr () else Inl SayRejected,
      w\<lparr>said := said w @ [(ch, r)]\<rparr>)"
  by (simp add: say_def Let_def)

lemma say_fields:
  "cooldowns (snd (say out ch r w)) = cooldowns w"
  "claimedDiscounts (snd (say out ch r w)) = claimedDiscounts w"
  "lastGlobalDropAt (snd (say out ch r w)) = lastGlobalDropAt w"
  "calls (snd (say out ch r w)) = calls w"
  "clockReads (snd (say out ch r w)) = clockReads w"
  "said (snd (say out ch r w)) = said w @ [(ch, r)]"
  by (simp_all add: say_eq)

lemma isOnCooldownNow_eq:
  "isOnCooldownNow out command userId w =
     (fst (isOnCooldown (cooldowns w) command userId (clock out (clockReads w))),
      w\<lparr>clockReads := Suc (clockReads w),
        cooldowns := snd (isOnCooldown (cooldowns w) command userId (clock out (clockReads w)))\<rparr>)"
  by (simp add: isOnCooldownNow_def dateNow_def Let_def split_def)












lemma callBackend_fields:
  "cooldowns (snd (callBackend out path percent w)) = cooldowns w"
  "claimedDiscounts (snd (callBackend out path percent w)) = claimedDiscounts w"
  "lastGlobalDropAt (snd (callBackend out path percent w)) = lastGlobalDropAt w"
  "said (snd (callBackend out path percent w)) = said w"
  "clockReads (snd (callBackend out path percent w)) = clockReads w"
  "calls (snd (callBackend out path percent w)) = calls w @ [BackendPost path percent]"
  by (simp_all add: callBackend_def Let_def split: axiosOutcome.splits)

lemma requestViewerDiscount_fields:
  "cooldowns (snd (requestViewerDiscount out login vid vl vd w)) = cooldowns w"
  "claimedDiscounts (snd (requestViewerDiscount out login vid vl vd w)) = claimedDiscounts w"
  "lastGlobalDropAt (snd (requestViewerDiscount out login vid vl vd w)) = lastGlobalDropAt w"
  "said (snd (requestViewerDiscount out login vid vl vd w)) = said w"
  "clockReads (snd (requestViewerDiscount out login vid vl vd w)) = clockReads w"
  "calls (snd (requestViewerDiscount out login vid vl vd w)) = calls w @ [ViewerDiscountPost (toLowerCase login) vid vl vd]"
  by (simp_all add: requestViewerDiscount_def Let_def split: fetchOutcome.splits sum.splits option.splits)























section \<open>The message handler\<close>

lemma onMessage_ignores:
  "self \<or> \<not> startsWith message (COMMAND_PREFIX out)
   \<or> trim (drop (length (COMMAND_PREFIX out)) message) = []
   \<or> \<not> commandFound (toLowerCase (hd (splitWhiteSpace (trim (drop (length (COMMAND_PREFIX out)) message)))))
   \<Longrightarrow> onMessage out channel tg message self w = (Inr (), w)"
  by (auto simp add: onMessage_def Let_def)



lemma parse_constructor:
  "trim ''constructor'' = ''constructor'' \<and> splitWhiteSpace ''constructor'' = [''constructor'']
   \<and> toLowerCase ''constructor'' = ''constructor''"
  by (simp add: trim_def splitWhiteSpace_def isWhiteSpace_def toLowerCase_def lowerChar_def)

text \<open>
  Claim C7 says that a first token outside the command registry is ignored without a
  reply. The lookup \<^verbatim>\<open>COMMANDS[commandName]\<close> also finds what the object literal inherits:
  for the message !constructor it finds a function, the handler goes on, calling the
  missing \<^verbatim>\<open>execute\<close> throws inside the \<^verbatim>\<open>try\<close>, and the \<^verbatim>\<open>catch\<close> sends one reply. (For a
  token that is neither a command nor an inherited name the claim holds, by
  \<open>onMessage_ignores\<close>.)
\<close>

theorem inherited_name_is_answered:
  "''constructor'' \<notin> set commandNames
   \<and> fst (onMessage calmOutside ''#bob'' alice ''!constructor'' False (initialWorld [])) = Inr ()
   \<and> said (snd (onMessage calmOutside ''#bob'' alice ''!constructor'' False (initialWorld [])))
       = [(''#bob'', ExecFailed ''Alice'' ''!'' ''constructor'')]"
proof -
  have p: "COMMAND_PREFIX calmOutside = ''!''"
    by (simp add: COMMAND_PREFIX_def calmOutside_def)
  have f: "commandFound ''constructor''"
    by (simp add: commandFound_def objectPrototypeKeys_def)
  have u: "userIdOf alice (Some ''Alice'') = Inr ''1001''"
    by (simp add: userIdOf_def alice_def strTruthy_def strOrUndefined_def)
  have n: "orElse (tagDisplayName alice) (tagUsername alice) = Some ''Alice''"
    by (simp add: orElse_def alice_def strTruthy_def)
  have x: "\<And>w. execute calmOutside ''constructor'' ''#bob'' alice [] w = (Inl TypeError, w)"
    by (simp add: execute_def)
  have c: "fst (isOnCooldown Map.empty ''constructor'' ''1001'' 1700000000000) = 0"
    by (simp add: isOnCooldown_def expiresAt_def objectPrototypeKeys_def)
  have s: "sayResolves calmOutside 0" "clock calmOutside 0 = 1700000000000"
    by (simp_all add: calmOutside_def)
  have r: "onMessage calmOutside ''#bob'' alice ''!constructor'' False (initialWorld [])
         = runCommand calmOutside ''#bob'' alice (Some ''Alice'') ''constructor'' [] (initialWorld [])"
    by (simp add: onMessage_def p f n parse_constructor startsWith_def)
  show ?thesis
    unfolding r
    by (simp add: runCommand_def u x c s isOnCooldownNow_eq say_eq initialWorld_def
          strOrUndefined_def p commandNames_def)
qed








section \<open>The personal discount\<close>










section \<open>The global drop\<close>

lemma executeDrop_gate_closed:
  assumes st: "isStreamer tg"
      and closed: "clock out (clockReads w) - lastGlobalDropAt w < GLOBAL_DROP_COOLDOWN_MS"
  shows "executeDrop out ch tg args w =
           say out ch (GlobalDropCooldown (strOrUndefined (tagDisplayName tg))
                         (ceilSeconds (GLOBAL_DROP_COOLDOWN_MS - (clock out (clockReads w) - lastGlobalDropAt w))))
             (w\<lparr>clockReads := Suc (clockReads w)\<rparr>)"
  using st closed
  by (simp add: executeDrop_def isStreamer_def Let_def dateNow_def split: option.splits)


lemma executeDrop_success:
  assumes st: "isStreamer tg"
      and "open": "\<not> clock out (clockReads w) - lastGlobalDropAt w < GLOBAL_DROP_COOLDOWN_MS"
      and pc: "parseInt10 (case args of [] \<Rightarrow> None | a # rest \<Rightarrow> Some a) = Some p" "1 \<le> p" "p \<le> 50"
      and ann: "sayResolves out (length (said w))"
      and be: "axiosResult out (length (calls w)) = AxiosResolves st' d"
      and ok: "truthyOpt (getProp d ''ok'')"
      and dr: "getProp d ''drop'' = Some dr" "dr \<noteq> JNull"
  shows "calls (snd (executeDrop out ch tg args w))
           = calls w @ [BackendPost (''/api/discounts/'' @ removeFirstHash ch @ ''/global'') p]"
    and "lastGlobalDropAt (snd (executeDrop out ch tg args w)) = clock out (clockReads w + 1)"
    and "clockReads (snd (executeDrop out ch tg args w)) = clockReads w + 2"
    and "saidSince w (snd (executeDrop out ch tg args w))
           = [(ch, CreatingDrop (strOrUndefined (tagDisplayName tg)) p),
              (ch, DropActivated (toStrOpt (getProp dr ''code'')) p)]"
proof -
  have obj: "spreadFields d \<noteq> None"
    using ok by (cases d) (simp_all add: spreadFields_def truthyOpt_def)
  have cb: "\<And>v path. length (calls v) = length (calls w) \<Longrightarrow>
      callBackend out path p v = (Inr d, v\<lparr>calls := calls v @ [BackendPost path p]\<rparr>)"
    using be obj by (simp add: callBackend_def Let_def)
  have oc: "\<And>v name. dropOutcome out ch name p d v =
      say out ch (DropActivated (toStrOpt (getProp dr ''code'')) p)
        (v\<lparr>clockReads := Suc (clockReads v), lastGlobalDropAt := clock out (clockReads v)\<rparr>)"
    using ok dr by (cases dr) (simp_all add: dropOutcome_def Let_def dateNow_def)
  have x: "executeDrop out ch tg args w =
      say out ch (DropActivated (toStrOpt (getProp dr ''code'')) p)
        (w\<lparr>clockReads := Suc (Suc (clockReads w)), lastGlobalDropAt := clock out (Suc (clockReads w)),
           said := said w @ [(ch, CreatingDrop (strOrUndefined (tagDisplayName tg)) p)],
           calls := calls w @ [BackendPost (''/api/discounts/'' @ removeFirstHash ch @ ''/global'') p]\<rparr>)"
    using st "open" pc ann
    by (simp add: executeDrop_def isStreamer_def Let_def dateNow_def say_eq cb oc split: option.splits)
  show "calls (snd (executeDrop out ch tg args w))
           = calls w @ [BackendPost (''/api/discounts/'' @ removeFirstHash ch @ ''/global'') p]"
    by (simp add: x say_eq)
  show "lastGlobalDropAt (snd (executeDrop out ch tg args w)) = clock out (clockReads w + 1)"
    by (simp add: x say_eq)
  show "clockReads (snd (executeDrop out ch tg args w)) = clockReads w + 2"
    by (simp add: x say_eq)
  show "saidSince w (snd (executeDrop out ch tg args w))
           = [(ch, CreatingDrop (strOrUndefined (tagDisplayName tg)) p),
              (ch, DropActivated (toStrOpt (getProp dr ''code'')) p)]"
    by (simp add: x say_eq saidSince_def)
qed


lemma parseInt10_non_numeric:
  "\<not> isDigit c \<Longrightarrow> c \<noteq> CHR ''-'' \<Longrightarrow> c \<noteq> CHR ''+'' \<Longrightarrow> parseInt10 (Some (c # cs)) = None"
  by (simp add: parseInt10_def parseDigits_def)

lemma dropOutcome_calls: "calls (snd (dropOutcome out ch name p d v)) = calls v"
  by (simp add: dropOutcome_def dropCatch_def say_fields Let_def split_def dateNow_def
        split: option.splits json.splits)

lemma executeDrop_goes_ahead:
  assumes st: "isStreamer tg"
      and "open": "\<not> clock out (clockReads w) - lastGlobalDropAt w < GLOBAL_DROP_COOLDOWN_MS"
      and pc: "parseInt10 (case args of [] \<Rightarrow> None | a # rest \<Rightarrow> Some a) = Some p" "1 \<le> p" "p \<le> 50"
      and ann: "sayResolves out (length (said w))"
  shows "calls (snd (executeDrop out ch tg args w))
           = calls w @ [BackendPost (''/api/discounts/'' @ removeFirstHash ch @ ''/global'') p]"
  using st "open" pc ann
  by (simp add: executeDrop_def Let_def split_def dateNow_def say_eq callBackend_fields
        dropOutcome_calls dropCatch_def say_fields split: sum.splits)

lemmas drop_eval =
  executeDrop_def dropOutcome_def dropCatch_def callBackend_def spreadFields_def isStreamer_def
  parseInt10_def parseDigits_def isDigit_def digitsValue_def digitValue_def
  say_eq saidSince_def dateNow_def truthyOpt_def toStrOpt_def strOrUndefined_def
  GLOBAL_DROP_COOLDOWN_MS_def ceilSeconds_def calmOutside_def bob_def initialWorld_def Let_def




text \<open>
  Claim C8. The gate of the global drop is the one integer \<^verbatim>\<open>lastGlobalDropAt\<close> of the
  process. After a successful drop in a channel by its streamer, a drop attempted in
  any channel by any streamer, in any world with that drop time, is rejected with the
  cooldown reply and makes no outgoing call as long as the clock reads less than 5
  minutes after the drop time; from 5 minutes on the gate is open in every channel: a
  valid percent whose announcement is delivered is posted to the back end.
\<close>

theorem global_drop_gate_is_shared:
  fixes out :: outside and ch1 :: string and tg1 :: tags and args1 :: "string list" and w :: world
  defines "w1 \<equiv> snd (executeDrop out ch1 tg1 args1 w)"
  assumes st1: "isStreamer tg1"
      and "open": "GLOBAL_DROP_COOLDOWN_MS \<le> clock out (clockReads w) - lastGlobalDropAt w"
      and pc: "parseInt10 (case args1 of [] \<Rightarrow> None | a # rest \<Rightarrow> Some a) = Some p" "1 \<le> p" "p \<le> 50"
      and ann: "sayResolves out (length (said w))"
      and be: "axiosResult out (length (calls w)) = AxiosResolves httpStatus d"
      and ok: "truthyOpt (getProp d ''ok'')"
      and dr: "getProp d ''drop'' = Some dr" "dr \<noteq> JNull"
      and st2: "isStreamer tg2"
  shows "lastGlobalDropAt w1 = clock out (clockReads w + 1)
       \<and> (\<forall>(v::world) ch2 args2.
             lastGlobalDropAt v = lastGlobalDropAt w1
             \<and> clock out (clockReads v) - lastGlobalDropAt w1 < 5 * 60 * 1000
             \<longrightarrow> calls (snd (executeDrop out ch2 tg2 args2 v)) = calls v
                 \<and> lastGlobalDropAt (snd (executeDrop out ch2 tg2 args2 v)) = lastGlobalDropAt w1
                 \<and> saidSince v (snd (executeDrop out ch2 tg2 args2 v))
                     = [(ch2, GlobalDropCooldown (strOrUndefined (tagDisplayName tg2))
                                (ceilSeconds (5 * 60 * 1000 - (clock out (clockReads v) - lastGlobalDropAt w1))))])
       \<and> (\<forall>(v::world) ch2 args2 p2.
             lastGlobalDropAt v = lastGlobalDropAt w1
             \<and> 5 * 60 * 1000 \<le> clock out (clockReads v) - lastGlobalDropAt w1
             \<and> parseInt10 (case args2 of [] \<Rightarrow> None | a # rest \<Rightarrow> Some a) = Some p2 \<and> 1 \<le> p2 \<and> p2 \<le> 50
             \<and> sayResolves out (length (said v))
             \<longrightarrow> calls (snd (executeDrop out ch2 tg2 args2 v))
                   = calls v @ [BackendPost (''/api/discounts/'' @ removeFirstHash ch2 @ ''/global'') p2])"
proof (intro conjI allI impI)
  have o: "\<not> clock out (clockReads w) - lastGlobalDropAt w < GLOBAL_DROP_COOLDOWN_MS"
    using "open" by simp
  show "lastGlobalDropAt w1 = clock out (clockReads w + 1)"
    using executeDrop_success(2)[OF st1 o pc ann be ok dr, of ch1] by (simp add: w1_def)
next
  fix v :: world and ch2 args2
  assume h: "lastGlobalDropAt v = lastGlobalDropAt w1
             \<and> clock out (clockReads v) - lastGlobalDropAt w1 < 5 * 60 * 1000"
  then have closed: "clock out (clockReads v) - lastGlobalDropAt v < GLOBAL_DROP_COOLDOWN_MS"
    by (simp add: GLOBAL_DROP_COOLDOWN_MS_def)
  note g = executeDrop_gate_closed[OF st2 closed, of ch2 args2]
  show "calls (snd (executeDrop out ch2 tg2 args2 v)) = calls v"
    by (simp add: g say_fields)
  show "lastGlobalDropAt (snd (executeDrop out ch2 tg2 args2 v)) = lastGlobalDropAt w1"
    using h by (simp add: g say_fields)
  show "saidSince v (snd (executeDrop out ch2 tg2 args2 v))
          = [(ch2, GlobalDropCooldown (strOrUndefined (tagDisplayName tg2))
                     (ceilSeconds (5 * 60 * 1000 - (clock out (clockReads v) - lastGlobalDropAt w1))))]"
    using h by (simp add: g say_fields saidSince_def GLOBAL_DROP_COOLDOWN_MS_def)
next
  fix v :: world and ch2 args2 p2
  assume h: "lastGlobalDropAt v = lastGlobalDropAt w1
             \<and> 5 * 60 * 1000 \<le> clock out (clockReads v) - lastGlobalDropAt w1
             \<and> parseInt10 (case args2 of [] \<Rightarrow> None | a # rest \<Rightarrow> Some a) = Some p2 \<and> 1 \<le> p2 \<and> p2 \<le> 50
             \<and> sayResolves out (length (said v))"
  then have o2: "\<not> clock out (clockReads v) - lastGlobalDropAt v < GLOBAL_DROP_COOLDOWN_MS"
    by (simp add: GLOBAL_DROP_COOLDOWN_MS_def)
  from h have pc2: "parseInt10 (case args2 of [] \<Rightarrow> None | a # rest \<Rightarrow> Some a) = Some p2" "1 \<le> p2" "p2 \<le> 50"
    and ann2: "sayResolves out (length (said v))" by simp_all
  show "calls (snd (executeDrop out ch2 tg2 args2 v))
          = calls v @ [BackendPost (''/api/discounts/'' @ removeFirstHash ch2 @ ''/global'') p2]"
    using executeDrop_goes_ahead[OF st2 o2 pc2 ann2] by simp
qed

theorem global_drop_gate_is_shared_witness:
  "isStreamer bob \<and> isStreamer carol
   \<and> GLOBAL_DROP_COOLDOWN_MS \<le> clock calmOutside 0 - lastGlobalDropAt (initialWorld [])
   \<and> parseInt10 (Some ''10'') = Some 10
   \<and> sayResolves calmOutside 0
   \<and> lastGlobalDropAt (snd (executeDrop calmOutside ''#bob'' bob [''10''] (initialWorld []))) = 1700000001000
   \<and> clock calmOutside (clockReads (snd (executeDrop calmOutside ''#bob'' bob [''10''] (initialWorld []))))
       - lastGlobalDropAt (snd (executeDrop calmOutside ''#bob'' bob [''10''] (initialWorld []))) = 1000
   \<and> saidSince (snd (executeDrop calmOutside ''#bob'' bob [''10''] (initialWorld [])))
        (snd (executeDrop calmOutside ''#carol'' carol [''20'']
               (snd (executeDrop calmOutside ''#bob'' bob [''10''] (initialWorld [])))))
       = [(''#carol'', GlobalDropCooldown ''Carol'' 299)]
   \<and> calls (snd (executeDrop calmOutside ''#carol'' carol [''20'']
               (snd (executeDrop calmOutside ''#bob'' bob [''10''] (initialWorld [])))))
       = [BackendPost ''/api/discounts/bob/global'' 10]
   \<and> calls (snd (executeDrop calmOutside ''#carol'' carol [''20'']
               ((snd (executeDrop calmOutside ''#bob'' bob [''10''] (initialWorld [])))\<lparr>clockReads := 400\<rparr>)))
       = [BackendPost ''/api/discounts/bob/global'' 10, BackendPost ''/api/discounts/carol/global'' 20]"
proof -
  have st1: "isStreamer bob" by (simp add: isStreamer_def bob_def)
  have st2: "isStreamer carol" by (simp add: isStreamer_def carol_def)
  have o: "GLOBAL_DROP_COOLDOWN_MS \<le> clock calmOutside (clockReads (initialWorld [])) - lastGlobalDropAt (initialWorld [])"
    by (simp add: drop_eval)
  have pc: "parseInt10 (case [''10''] of [] \<Rightarrow> None | a # rest \<Rightarrow> Some a) = Some 10" "(1::int) \<le> 10" "(10::int) \<le> 50"
    by (simp_all add: drop_eval)
  have ann: "sayResolves calmOutside (length (said (initialWorld [])))"
    by (simp add: drop_eval)
  have be: "axiosResult calmOutside (length (calls (initialWorld [])))
       = AxiosResolves 200 (JObj [(''ok'', JBool True), (''drop'', JObj [(''code'', JStr ''HYPE10'')])])"
    by (simp add: drop_eval)
  have ok: "truthyOpt (getProp (JObj [(''ok'', JBool True), (''drop'', JObj [(''code'', JStr ''HYPE10'')])]) ''ok'')"
    by (simp add: drop_eval)
  have dr: "getProp (JObj [(''ok'', JBool True), (''drop'', JObj [(''code'', JStr ''HYPE10'')])]) ''drop''
       = Some (JObj [(''code'', JStr ''HYPE10'')])" "JObj [(''code'', JStr ''HYPE10'')] \<noteq> JNull"
    by simp_all
  note t = global_drop_gate_is_shared[OF st1 o pc ann be ok dr st2, of "''#bob''"]
  show ?thesis
    using t by (simp add: drop_eval carol_def)
qed

end
